theory Spec2Isabelle
  imports Complex_Main "HOL-Library.Word" "HOL-Library.Sublist" "HOL-Library.Log_Nat"
begin

section \<open>JavaScript strings\<close>

text \<open>
  A JavaScript string is a sequence of UTF-16 code units. String literals of
  \<^verbatim>\<open>src/App.tsx\<close> are ASCII and are written with \<open>lit\<close>.
\<close>

type_synonym jsstring = "16 word list"

definition lit :: "string \<Rightarrow> jsstring" where
  "lit cs = map (\<lambda>c. of_nat (of_char c)) cs"

text \<open>
  The code units that \<^verbatim>\<open>String.prototype.trim\<close> strips and that the
  regular expression class \<^verbatim>\<open>\s\<close> matches: ECMAScript's WhiteSpace
  (TAB, VT, FF, ZWNBSP and the Unicode space separators) and LineTerminator
  (LF, CR, LS, PS).
\<close>

definition isWhiteSpace :: "16 word \<Rightarrow> bool" where
  "isWhiteSpace c \<longleftrightarrow>
     c \<in> {0x0009, 0x000A, 0x000B, 0x000C, 0x000D, 0x0020, 0x00A0, 0x1680,
          0x2028, 0x2029, 0x202F, 0x205F, 0x3000, 0xFEFF}
     \<or> (0x2000 \<le> c \<and> c \<le> 0x200A)"

definition trim :: "jsstring \<Rightarrow> jsstring" where
  "trim s = rev (dropWhile isWhiteSpace (rev (dropWhile isWhiteSpace s)))"

text \<open>
  \<^verbatim>\<open>s.split(/\s+/)\<close>: the text before the first run of whitespace, then
  the split of what follows that run. A string without whitespace (the empty
  string too) is returned as the only piece; whitespace at either end leaves
  an empty piece there.
\<close>

function split_ws :: "jsstring \<Rightarrow> jsstring list" where
  "split_ws s =
     (let piece = takeWhile (\<lambda>c. \<not> isWhiteSpace c) s;
          rest = dropWhile (\<lambda>c. \<not> isWhiteSpace c) s
      in if rest = [] then [piece]
         else piece # split_ws (dropWhile isWhiteSpace rest))"
  by pat_completeness auto

termination split_ws
proof (relation "measure length")
  show "wf (measure length)"
    by simp
next
  fix s rest :: jsstring
  assume rest: "rest = dropWhile (\<lambda>c. \<not> isWhiteSpace c) s" and ne: "rest \<noteq> []"
  obtain x xs where r: "rest = x # xs"
    using ne by (cases rest) auto
  have "isWhiteSpace (hd rest)"
    using hd_dropWhile [of "\<lambda>c. \<not> isWhiteSpace c" s] ne unfolding rest by blast
  then have "length (dropWhile isWhiteSpace rest) \<le> length xs"
    using r by (simp add: length_dropWhile_le)
  moreover have "length rest \<le> length s"
    unfolding rest by (rule length_dropWhile_le)
  ultimately show "(dropWhile isWhiteSpace rest, s) \<in> measure length"
    using r by simp
qed

declare split_ws.simps [simp del]

section \<open>Review strength (\<^verbatim>\<open>reviewStrength\<close>, lines 53-60)\<close>

record strength =
  label :: jsstring
  color :: jsstring
  width :: jsstring

definition reviewStrength :: "jsstring \<Rightarrow> strength" where
  "reviewStrength reviews =
     (let words = length (filter (\<lambda>w. length w > 0) (split_ws (trim reviews)))
      in if words = 0 then
           \<lparr>label = lit ''Empty'', color = lit ''bg-slate-200'', width = lit ''0%''\<rparr>
         else if words < 10 then
           \<lparr>label = lit ''Weak'', color = lit ''bg-red-400'', width = lit ''25%''\<rparr>
         else if words < 30 then
           \<lparr>label = lit ''Fair'', color = lit ''bg-amber-400'', width = lit ''50%''\<rparr>
         else if words < 60 then
           \<lparr>label = lit ''Good'', color = lit ''bg-indigo-400'', width = lit ''75%''\<rparr>
         else
           \<lparr>label = lit ''Excellent'', color = lit ''bg-emerald-500'', width = lit ''100%''\<rparr>)"

text \<open>
  The specification's count, stated without the source's trim, split and
  filter: the number of non-empty whitespace-separated tokens of a text is the
  number of places where a token starts, that is, of non-whitespace code units
  that are first in the text or follow a whitespace code unit. The flag says
  whether a token would start at the next non-whitespace code unit.
\<close>

fun token_starts :: "bool \<Rightarrow> jsstring \<Rightarrow> nat" where
  "token_starts b [] = 0"
| "token_starts b (c # cs) =
     (if isWhiteSpace c then token_starts True cs
      else (if b then 1 else 0) + token_starts False cs)"

definition spec_token_count :: "jsstring \<Rightarrow> nat" where
  "spec_token_count text = token_starts True text"

section \<open>The prompt (lines 72-84)\<close>

text \<open>
  The template literal handed to \<^verbatim>\<open>generateContent\<close> as
  \<^verbatim>\<open>contents\<close>, with its two interpolations \<^verbatim>\<open>${language}\<close> and
  \<^verbatim>\<open>${finalReviews}\<close>; the line breaks and the indentation of the source
  are part of the literal.
\<close>

definition contents :: "jsstring \<Rightarrow> jsstring \<Rightarrow> jsstring" where
  \<open>contents language finalReviews =
     lit ''Analyze the following customer reviews (Input Language: ''
     @ language
     @ lit ('') and provide a comprehensive sales and marketing strategy specifically designed to maximize the company's Annual Sale Growth Rate.\<newline>''
          @ ''        \<newline>''
          @ ''        Reviews:\<newline>''
          @ ''        '')
     @ finalReviews
     @ lit (''\<newline>''
          @ ''        \<newline>''
          @ ''        Focus on:\<newline>''
          @ ''        1. Identifying core customer problems (pain points) that are currently capping growth.\<newline>''
          @ ''        2. Identifying specific "Growth Levers" - areas where improvements will directly impact the Annual Sale Growth Rate.\<newline>''
          @ ''        3. Providing actionable marketing and sales solutions to overcome sales blockers.\<newline>''
          @ ''        4. Creating a professional "Strategic Sales Growth Plan" structured with pillars like Market Expansion, Sales Enablement, and Customer Lifetime Value (CLV) optimization, including specific quarterly milestones.\<newline>''
          @ ''        5. Providing a 6-month data projection (current vs projected revenue growth in percentage) showing the acceleration of the growth rate.\<newline>''
          @ ''        \<newline>''
          @ ''        '')
     @ lit ''Note: If the reviews are in a language other than English, please translate the core insights internally to provide the strategy in English.''\<close>

section \<open>Numbers\<close>

text \<open>
  A JavaScript number is an IEEE 754 binary64 value: a finite value
  \<open>m * 2 ^ k\<close> with \<open>\<bar>m\<bar> < 2 ^ 53\<close> and \<open>-1074 \<le> k \<le> 971\<close>, an infinity,
  or NaN. A finite value is given by the rational it is. The two zeros are
  one value here: subtraction, multiplication, \<^verbatim>\<open>Math.round\<close> and printing
  tell them apart only in the sign of a zero result, and both zeros print as
  \<^verbatim>\<open>0\<close>.
\<close>

datatype number = Finite rat | PosInfinity | NegInfinity | NaN

text \<open>The \<open>e\<close> with \<open>2 ^ e \<le> \<bar>x\<bar> < 2 ^ (e + 1)\<close>, for \<open>x \<noteq> 0\<close>.\<close>

definition exponent :: "rat \<Rightarrow> int" where
  "exponent x =
     (if 1 \<le> \<bar>x\<bar> then bitlen \<lfloor>\<bar>x\<bar>\<rfloor> - 1
      else - bitlen (\<lceil>1 / \<bar>x\<bar>\<rceil> - 1))"

text \<open>
  The binary64 value of an exact result \<open>x\<close>: the nearest multiple of the
  spacing \<open>q\<close> that the doubles have at \<open>x\<close> (\<open>2 ^ (e - 52)\<close>, and
  \<open>2 ^ (-1074)\<close> below \<open>2 ^ (-1022)\<close>), a tie going to the even multiple,
  and an infinity when that is \<open>2 ^ 1024\<close> or beyond. A number written in
  decimal, in the source or in a JSON text, is \<open>fl\<close> of its decimal value.
\<close>

definition fl :: "rat \<Rightarrow> number" where
  "fl x =
     (let q = 2 powi (max (exponent x) (- 1022) - 52);
          n = x / q;
          f = \<lfloor>n\<rfloor>;
          m = (if n - of_int f < 1 / 2 then f
               else if 1 / 2 < n - of_int f then f + 1
               else if even f then f else f + 1);
          y = of_int m * q
      in if 2 powi 1024 \<le> y then PosInfinity
         else if y \<le> - (2 powi 1024) then NegInfinity
         else Finite y)"

text \<open>The operators \<^verbatim>\<open>-\<close> and \<^verbatim>\<open>*\<close> on numbers.\<close>

fun number_minus :: "number \<Rightarrow> number \<Rightarrow> number" where
  "number_minus (Finite a) (Finite b) = fl (a - b)"
| "number_minus NaN _ = NaN"
| "number_minus _ NaN = NaN"
| "number_minus PosInfinity PosInfinity = NaN"
| "number_minus NegInfinity NegInfinity = NaN"
| "number_minus PosInfinity _ = PosInfinity"
| "number_minus NegInfinity _ = NegInfinity"
| "number_minus (Finite a) PosInfinity = NegInfinity"
| "number_minus (Finite a) NegInfinity = PosInfinity"

fun number_times :: "number \<Rightarrow> number \<Rightarrow> number" where
  "number_times (Finite a) (Finite b) = fl (a * b)"
| "number_times NaN _ = NaN"
| "number_times _ NaN = NaN"
| "number_times PosInfinity PosInfinity = PosInfinity"
| "number_times NegInfinity NegInfinity = PosInfinity"
| "number_times PosInfinity NegInfinity = NegInfinity"
| "number_times NegInfinity PosInfinity = NegInfinity"
| "number_times PosInfinity (Finite b) =
     (if b = 0 then NaN else if 0 < b then PosInfinity else NegInfinity)"
| "number_times NegInfinity (Finite b) =
     (if b = 0 then NaN else if 0 < b then NegInfinity else PosInfinity)"
| "number_times (Finite a) PosInfinity =
     (if a = 0 then NaN else if 0 < a then PosInfinity else NegInfinity)"
| "number_times (Finite a) NegInfinity =
     (if a = 0 then NaN else if 0 < a then NegInfinity else PosInfinity)"

text \<open>
  \<^verbatim>\<open>Math.round\<close>: the nearest integer, a tie going up; NaN and the
  infinities are returned as they are. The nearest integer of a double is a
  double, so nothing is rounded a second time.
\<close>

fun Math_round :: "number \<Rightarrow> number" where
  "Math_round (Finite x) = Finite (of_int \<lfloor>x + 1 / 2\<rfloor>)"
| "Math_round v = v"

section \<open>JSON values and the component state (lines 41-45)\<close>

text \<open>What \<^verbatim>\<open>JSON.parse\<close> returns.\<close>

datatype json =
    JNull
  | JBool bool
  | JNumber number
  | JString jsstring
  | JArray "json list"
  | JObject "(jsstring \<times> json) list"

text \<open>What the \<^verbatim>\<open>catch\<close> block of \<^verbatim>\<open>analyzeReviews\<close> can receive as \<^verbatim>\<open>err\<close>.\<close>

datatype thrown = GenerationFailure | SyntaxError

text \<open>
  The five \<^verbatim>\<open>useState\<close> cells of the component, and the two effects of
  \<^verbatim>\<open>analyzeReviews\<close> on the outside: \<open>requests\<close> lists the
  \<^verbatim>\<open>contents\<close> of every \<^verbatim>\<open>generateContent\<close> call made so far, oldest
  first, and \<open>console\<close> what \<^verbatim>\<open>console.error\<close> has logged. The cell
  \<^verbatim>\<open>result\<close> holds \<^verbatim>\<open>null\<close> or whatever \<^verbatim>\<open>setResult\<close> was given.
\<close>

record app =
  reviews :: jsstring
  isAnalyzing :: bool
  result :: json
  error :: "jsstring option"
  language :: jsstring
  requests :: "jsstring list"
  console :: "thrown list"

definition initial :: app where
  "initial =
     \<lparr>reviews = [], isAnalyzing = False, result = JNull, error = None,
      language = lit ''Auto-detect'', requests = [], console = []\<rparr>"

section \<open>\<^verbatim>\<open>analyzeReviews\<close> (lines 62-122)\<close>

text \<open>
  An event handler reads \<^verbatim>\<open>reviews\<close> and \<^verbatim>\<open>language\<close> from the
  render it was created in (\<open>shown\<close>), whatever the setters called before it
  in the same handler have written; its own writes go to the state \<open>s\<close>.

  \<^verbatim>\<open>textToUse || reviews\<close>: the argument when it is given and is not the
  empty string, the textarea's text otherwise.
\<close>

definition finalReviews :: "app \<Rightarrow> jsstring option \<Rightarrow> jsstring" where
  "finalReviews shown textToUse =
     (case textToUse of
        None \<Rightarrow> reviews shown
      | Some t \<Rightarrow> if t = [] then reviews shown else t)"

text \<open>
  The function up to its \<^verbatim>\<open>await\<close> (lines 63-112), the call of
  \<^verbatim>\<open>generateContent\<close> included.
\<close>

definition analyzeReviews :: "app \<Rightarrow> jsstring option \<Rightarrow> app \<Rightarrow> app" where
  "analyzeReviews shown textToUse s =
     (let final = finalReviews shown textToUse
      in if trim final = [] then s
         else s\<lparr>isAnalyzing := True, error := None,
                requests := requests s @ [contents (language shown) final]\<rparr>)"

text \<open>
  How the \<^verbatim>\<open>await\<close> ends: the call rejects, or it resolves with a
  response whose \<^verbatim>\<open>text\<close> is a string or \<^verbatim>\<open>undefined\<close>.
\<close>

datatype reply = Rejects | Resolves "jsstring option"

text \<open>\<^verbatim>\<open>response.text || '{}'\<close> (line 114).\<close>

definition body :: "jsstring option \<Rightarrow> jsstring" where
  "body text =
     (case text of
        None \<Rightarrow> lit ''{}''
      | Some t \<Rightarrow> if t = [] then lit ''{}'' else t)"

definition failure_message :: jsstring where
  "failure_message = lit ''Failed to analyze reviews. Please try again.''"

text \<open>
  The rest of the function (lines 114-121), run when the \<^verbatim>\<open>await\<close> ends.
  \<^verbatim>\<open>JSON.parse\<close> is the platform's function and is a parameter; \<open>None\<close>
  is its \<^verbatim>\<open>SyntaxError\<close>.
\<close>

definition try_block :: "(jsstring \<Rightarrow> json option) \<Rightarrow> reply \<Rightarrow> thrown + json" where
  "try_block JSON_parse r =
     (case r of
        Rejects \<Rightarrow> Inl GenerationFailure
      | Resolves text \<Rightarrow>
          (case JSON_parse (body text) of
             None \<Rightarrow> Inl SyntaxError
           | Some data \<Rightarrow> Inr data))"

definition analyzeReviews_resume :: "(jsstring \<Rightarrow> json option) \<Rightarrow> reply \<Rightarrow> app \<Rightarrow> app" where
  "analyzeReviews_resume JSON_parse r s =
     (let s' = (case try_block JSON_parse r of
                  Inr data \<Rightarrow> s\<lparr>result := data\<rparr>
                | Inl err \<Rightarrow> s\<lparr>console := console s @ [err],
                               error := Some failure_message\<rparr>)
      in s'\<lparr>isAnalyzing := False\<rparr>)"

section \<open>Event handlers\<close>

text \<open>The textarea's \<^verbatim>\<open>onChange\<close> (line 272).\<close>

definition onChange :: "jsstring \<Rightarrow> app \<Rightarrow> app" where
  "onChange v s = s\<lparr>reviews := v\<rparr>"

text \<open>\<^verbatim>\<open>handlePaste\<close> (lines 124-130).\<close>

definition handlePaste :: "app \<Rightarrow> jsstring \<Rightarrow> app \<Rightarrow> app" where
  "handlePaste shown pastedText s =
     (if trim pastedText \<noteq> []
      then analyzeReviews shown (Some pastedText) (s\<lparr>reviews := pastedText\<rparr>)
      else s)"

text \<open>The button "Try with Example Reviews" (lines 298-310).\<close>

definition example :: jsstring where
  \<open>example =
     lit (''- The checkout process is too long and confusing. I almost gave up.\<newline>''
        @ ''- I love the product but shipping took 3 weeks without any updates.\<newline>''
        @ ''- Customer support didn't respond to my email for 4 days.\<newline>''
        @ ''- The mobile app crashes whenever I try to apply a discount code.\<newline>''
        @ ''- Prices are a bit higher than competitors, but the quality is better.\<newline>''
        @ ''- I wish there was a subscription option for recurring orders.\<newline>''
        @ ''- The website is slow to load on my phone.\<newline>''
        @ ''- Finding specific items in the search bar is frustratingly difficult.'')\<close>

definition clickExample :: "app \<Rightarrow> app \<Rightarrow> app" where
  "clickExample shown s = analyzeReviews shown (Some example) (s\<lparr>reviews := example\<rparr>)"

text \<open>
  The button "Generate Sales Strategy" (lines 315-317): it is
  \<^verbatim>\<open>disabled\<close> while \<^verbatim>\<open>isAnalyzing || !reviews.trim()\<close>, and a disabled
  button delivers no click.
\<close>

definition clickGenerate :: "app \<Rightarrow> app \<Rightarrow> app" where
  "clickGenerate shown s =
     (if isAnalyzing shown \<or> trim (reviews shown) = [] then s
      else analyzeReviews shown None s)"

section \<open>The estimated annual increment (line 496)\<close>

text \<open>The interface \<^verbatim>\<open>AnalysisResult\<close> (lines 30-38), at which the result is rendered.\<close>

record growth_point =
  month :: jsstring
  current :: number
  projected :: number

record AnalysisResult =
  painPoints :: "jsstring list"
  sentiment :: jsstring
  salesBlockers :: "jsstring list"
  marketingStrategy :: jsstring
  salesStrategy :: jsstring
  growthProjection :: "growth_point list"
  annualIncrementPlan :: jsstring

datatype render_error = TypeError

text \<open>
  Reading an array element: \<^verbatim>\<open>undefined\<close> out of range, and reading a
  property of \<^verbatim>\<open>undefined\<close> throws a \<^verbatim>\<open>TypeError\<close>.
\<close>

definition element :: "'a list \<Rightarrow> nat \<Rightarrow> 'a option" where
  "element xs i = (if i < length xs then Some (xs ! i) else None)"

definition annualIncrementEstimate :: "AnalysisResult \<Rightarrow> render_error + number" where
  "annualIncrementEstimate r =
     (case element (growthProjection r) 5 of
        None \<Rightarrow> Inl TypeError
      | Some p5 \<Rightarrow>
          (case element (growthProjection r) 0 of
             None \<Rightarrow> Inl TypeError
           | Some p0 \<Rightarrow>
               Inr (Math_round
                     (number_times (number_minus (projected p5) (current p0)) (Finite 2.5)))))"

section \<open>What the specification asks of a response\<close>

text \<open>The \<^verbatim>\<open>required\<close> list of the response schema (line 109).\<close>

definition required :: "jsstring list" where
  "required =
     [lit ''painPoints'', lit ''sentiment'', lit ''salesBlockers'', lit ''marketingStrategy'',
      lit ''salesStrategy'', lit ''annualIncrementPlan'', lit ''growthProjection'']"

text \<open>A member of a JSON object; a value that is no object has none.\<close>

fun field :: "json \<Rightarrow> jsstring \<Rightarrow> json option" where
  "field (JObject members) k = map_of members k"
| "field _ k = None"

fun is_number :: "json option \<Rightarrow> bool" where
  "is_number (Some (JNumber x)) = True"
| "is_number _ = False"

text \<open>
  The acceptance condition that the specification gives for its response
  validator, in the specification's words and not from the source: every
  field of \<open>required\<close> is present, and \<^verbatim>\<open>growthProjection\<close> is an array
  with at least 6 entries whose \<^verbatim>\<open>current\<close> and \<^verbatim>\<open>projected\<close> are both
  numbers.
\<close>

definition spec_accepts :: "json \<Rightarrow> bool" where
  "spec_accepts data \<longleftrightarrow>
     list_all (\<lambda>k. field data k \<noteq> None) required \<and>
     (case field data (lit ''growthProjection'') of
        Some (JArray points) \<Rightarrow>
          6 \<le> length (filter (\<lambda>p. is_number (field p (lit ''current'')) \<and>
                                   is_number (field p (lit ''projected''))) points)
      | _ \<Rightarrow> False)"

section \<open>Sample values\<close>

text \<open>
  A response text and the value \<^verbatim>\<open>JSON.parse\<close> returns for it. Where a
  statement below needs \<^verbatim>\<open>JSON.parse\<close> at concrete texts, it is given as
  the table \<open>map_of\<close> of the texts it is applied to.
\<close>

definition sample_text :: jsstring where
  \<open>sample_text =
     lit (''{"painPoints":["slow shipping"],"sentiment":"Mixed","salesBlockers":["price"],''
        @ ''"marketingStrategy":"m","salesStrategy":"s","annualIncrementPlan":"p",''
        @ ''"growthProjection":[{"month":"Jan","current":5,"projected":10},''
        @ ''{"month":"Feb","current":6,"projected":17},{"month":"Mar","current":6,"projected":24},''
        @ ''{"month":"Apr","current":7,"projected":31},{"month":"May","current":7,"projected":38},''
        @ ''{"month":"Jun","current":8,"projected":45}]}'')\<close>

definition sample_point :: "string \<Rightarrow> rat \<Rightarrow> rat \<Rightarrow> json" where
  "sample_point m c p =
     JObject [(lit ''month'', JString (lit m)), (lit ''current'', JNumber (Finite c)),
              (lit ''projected'', JNumber (Finite p))]"

definition sample_data :: json where
  "sample_data =
     JObject
       [(lit ''painPoints'', JArray [JString (lit ''slow shipping'')]),
        (lit ''sentiment'', JString (lit ''Mixed'')),
        (lit ''salesBlockers'', JArray [JString (lit ''price'')]),
        (lit ''marketingStrategy'', JString (lit ''m'')),
        (lit ''salesStrategy'', JString (lit ''s'')),
        (lit ''annualIncrementPlan'', JString (lit ''p'')),
        (lit ''growthProjection'',
           JArray [sample_point ''Jan'' 5 10, sample_point ''Feb'' 6 17, sample_point ''Mar'' 6 24,
                   sample_point ''Apr'' 7 31, sample_point ''May'' 7 38, sample_point ''Jun'' 8 45])]"

definition sample_points :: "number \<Rightarrow> number \<Rightarrow> growth_point list" where
  "sample_points c p =
     [\<lparr>month = lit ''Jan'', current = c, projected = Finite 10\<rparr>,
      \<lparr>month = lit ''Feb'', current = Finite 6, projected = Finite 17\<rparr>,
      \<lparr>month = lit ''Mar'', current = Finite 6, projected = Finite 24\<rparr>,
      \<lparr>month = lit ''Apr'', current = Finite 7, projected = Finite 31\<rparr>,
      \<lparr>month = lit ''May'', current = Finite 7, projected = Finite 38\<rparr>,
      \<lparr>month = lit ''Jun'', current = Finite 8, projected = p\<rparr>]"

text \<open>
  The sample response at its type, with the first \<^verbatim>\<open>current\<close> and the
  sixth \<^verbatim>\<open>projected\<close> as given.
\<close>

definition sample_result :: "number \<Rightarrow> number \<Rightarrow> AnalysisResult" where
  "sample_result c p =
     \<lparr>painPoints = [lit ''slow shipping''], sentiment = lit ''Mixed'',
      salesBlockers = [lit ''price''], marketingStrategy = lit ''m'', salesStrategy = lit ''s'',
      growthProjection = sample_points c p, annualIncrementPlan = lit ''p''\<rparr>"

text \<open>A text of \<open>k\<close> words.\<close>

definition k_words :: "nat \<Rightarrow> jsstring" where
  "k_words k = concat (replicate k (lit ''ok ''))"

section \<open>Strings: basic facts\<close>

lemma trim_eq_Nil: "trim s = [] \<longleftrightarrow> (\<forall>c\<in>set s. isWhiteSpace c)"
proof
  assume "trim s = []"
  then have all: "\<forall>c\<in>set (dropWhile isWhiteSpace s). isWhiteSpace c"
    by (simp add: trim_def dropWhile_eq_Nil_conv)
  have "dropWhile isWhiteSpace s = []"
  proof (rule ccontr)
    assume ne: "dropWhile isWhiteSpace s \<noteq> []"
    then have "\<not> isWhiteSpace (hd (dropWhile isWhiteSpace s))"
      by (rule hd_dropWhile)
    moreover have "hd (dropWhile isWhiteSpace s) \<in> set (dropWhile isWhiteSpace s)"
      using ne by (rule hd_in_set)
    ultimately show False
      using all by blast
  qed
  then show "\<forall>c\<in>set s. isWhiteSpace c"
    by (simp add: dropWhile_eq_Nil_conv)
next
  assume "\<forall>c\<in>set s. isWhiteSpace c"
  then have d: "dropWhile isWhiteSpace s = []"
    by (simp add: dropWhile_eq_Nil_conv)
  show "trim s = []"
    unfolding trim_def d by simp
qed

lemma trim_Nil: "trim [] = []"
  by (simp add: trim_def)

lemma trim_not_Nil: "c \<in> set s \<Longrightarrow> \<not> isWhiteSpace c \<Longrightarrow> trim s \<noteq> []"
  by (auto simp: trim_eq_Nil)

lemma trim_slow_shipping: "trim (lit ''slow shipping'') \<noteq> []"
  by (rule trim_not_Nil [of "0x73"]) (simp_all add: lit_def isWhiteSpace_def)

lemma trim_rude_support: "trim (lit ''rude support'') \<noteq> []"
  by (rule trim_not_Nil [of "0x72"]) (simp_all add: lit_def isWhiteSpace_def)

lemma trim_example: "trim example \<noteq> []"
  by (rule trim_not_Nil [of "0x2D"]) (simp_all add: example_def lit_def isWhiteSpace_def)

lemma trim_spaces: "trim (lit ''   '') = []"
  by (simp add: trim_eq_Nil lit_def isWhiteSpace_def)

section \<open>The word count of \<^verbatim>\<open>reviewStrength\<close> is the specification's token count\<close>

lemma token_starts_all_ws: "\<forall>c\<in>set ws. isWhiteSpace c \<Longrightarrow> token_starts b ws = 0"
  by (induction ws arbitrary: b) auto

lemma token_starts_trailing_ws:
  "\<forall>c\<in>set ws. isWhiteSpace c \<Longrightarrow> token_starts b (xs @ ws) = token_starts b xs"
  by (induction xs arbitrary: b) (auto simp: token_starts_all_ws)

lemma token_starts_leading_ws:
  "token_starts True (dropWhile isWhiteSpace xs) = token_starts True xs"
  by (induction xs) auto

lemma token_starts_inside_token:
  "\<forall>c\<in>set p. \<not> isWhiteSpace c \<Longrightarrow> token_starts False (p @ r) = token_starts False r"
  by (induction p) auto

lemma token_starts_piece:
  assumes "\<forall>c\<in>set p. \<not> isWhiteSpace c"
  shows "token_starts True (p @ r) =
           (if p = [] then token_starts True r else 1 + token_starts False r)"
  using assms by (cases p) (auto simp: token_starts_inside_token)

lemma token_starts_trim: "token_starts True (trim s) = token_starts True s"
proof -
  let ?t = "dropWhile isWhiteSpace s"
  have "rev (takeWhile isWhiteSpace (rev ?t) @ dropWhile isWhiteSpace (rev ?t)) = rev (rev ?t)"
    by (simp only: takeWhile_dropWhile_id)
  then have t: "trim s @ rev (takeWhile isWhiteSpace (rev ?t)) = ?t"
    by (simp only: rev_append rev_rev_ident trim_def)
  have "\<forall>c\<in>set (rev (takeWhile isWhiteSpace (rev ?t))). isWhiteSpace c"
    by (auto dest: set_takeWhileD)
  then have "token_starts True (trim s @ rev (takeWhile isWhiteSpace (rev ?t)))
      = token_starts True (trim s)"
    by (rule token_starts_trailing_ws)
  then have "token_starts True ?t = token_starts True (trim s)"
    by (simp only: t)
  then show ?thesis
    by (simp only: token_starts_leading_ws)
qed

lemma split_ws_count:
  "length (filter (\<lambda>w. length w > 0) (split_ws s)) = token_starts True s"
proof (induction s rule: split_ws.induct)
  case (1 s)
  let ?piece = "takeWhile (\<lambda>c. \<not> isWhiteSpace c) s"
  let ?rest = "dropWhile (\<lambda>c. \<not> isWhiteSpace c) s"
  have piece: "\<forall>c\<in>set ?piece. \<not> isWhiteSpace c"
    by (auto dest: set_takeWhileD)
  have "token_starts True (?piece @ ?rest) =
      (if ?piece = [] then token_starts True ?rest else 1 + token_starts False ?rest)"
    using piece by (rule token_starts_piece)
  then have whole: "token_starts True s =
      (if ?piece = [] then token_starts True ?rest else 1 + token_starts False ?rest)"
    by (simp only: takeWhile_dropWhile_id)
  show ?case
  proof (cases "?rest = []")
    case True
    have "split_ws s = [?piece]"
      by (subst split_ws.simps) (simp only: Let_def True simp_thms if_True)
    moreover have "token_starts b ?rest = 0" for b
      by (simp only: True token_starts.simps)
    ultimately show ?thesis
      using whole by simp
  next
    case False
    then obtain x xs where r: "?rest = x # xs"
      by (cases ?rest) auto
    have "isWhiteSpace (hd ?rest)"
      using hd_dropWhile [of "\<lambda>c. \<not> isWhiteSpace c" s] False by blast
    then have x: "isWhiteSpace x"
      by (simp only: r list.sel)
    have any: "token_starts b ?rest = token_starts True (dropWhile isWhiteSpace ?rest)" for b
      unfolding r using x by (simp add: token_starts_leading_ws)
    have "split_ws s = ?piece # split_ws (dropWhile isWhiteSpace ?rest)"
      by (subst split_ws.simps) (simp only: Let_def False simp_thms if_False)
    moreover have "length (filter (\<lambda>w. length w > 0) (split_ws (dropWhile isWhiteSpace ?rest)))
        = token_starts True (dropWhile isWhiteSpace ?rest)"
      using "1.IH" [OF refl refl False] .
    ultimately show ?thesis
      using whole any [of True] any [of False] by simp
  qed
qed

lemma words_eq_spec_token_count:
  "length (filter (\<lambda>w. length w > 0) (split_ws (trim input))) = spec_token_count input"
  by (simp only: split_ws_count token_starts_trim spec_token_count_def)

lemma token_starts_ok: "token_starts True (lit ''ok '' @ r) = Suc (token_starts True r)"
  by (simp add: lit_def isWhiteSpace_def)

lemma spec_token_count_k_words: "spec_token_count (k_words k) = k"
  unfolding spec_token_count_def k_words_def
  by (induction k) (simp_all only: replicate.simps concat.simps token_starts.simps token_starts_ok)

text \<open>
  C5. For every input text, with \<open>n\<close> its number of non-empty
  whitespace-separated tokens, \<open>reviewStrength\<close> returns the label Empty and
  the width 0% when \<open>n = 0\<close>, Weak and 25% when \<open>1 \<le> n < 10\<close>, Fair and 50%
  when \<open>10 \<le> n < 30\<close>, Good and 75% when \<open>30 \<le> n < 60\<close>, Excellent and 100%
  when \<open>60 \<le> n\<close>.
\<close>

theorem reviewStrength_thresholds:
  "(spec_token_count input = 0 \<longrightarrow>
      label (reviewStrength input) = lit ''Empty'' \<and> width (reviewStrength input) = lit ''0%'')
   \<and> (1 \<le> spec_token_count input \<and> spec_token_count input < 10 \<longrightarrow>
      label (reviewStrength input) = lit ''Weak'' \<and> width (reviewStrength input) = lit ''25%'')
   \<and> (10 \<le> spec_token_count input \<and> spec_token_count input < 30 \<longrightarrow>
      label (reviewStrength input) = lit ''Fair'' \<and> width (reviewStrength input) = lit ''50%'')
   \<and> (30 \<le> spec_token_count input \<and> spec_token_count input < 60 \<longrightarrow>
      label (reviewStrength input) = lit ''Good'' \<and> width (reviewStrength input) = lit ''75%'')
   \<and> (60 \<le> spec_token_count input \<longrightarrow>
      label (reviewStrength input) = lit ''Excellent'' \<and> width (reviewStrength input) = lit ''100%'')"
  unfolding reviewStrength_def words_eq_spec_token_count by (simp add: Let_def)

text \<open>The boundaries: texts of 0, 9, 10, 29, 30, 59 and 60 words.\<close>

theorem reviewStrength_thresholds_witness:
  "spec_token_count (k_words 0) = 0
     \<and> label (reviewStrength (k_words 0)) = lit ''Empty''
     \<and> width (reviewStrength (k_words 0)) = lit ''0%''
   \<and> spec_token_count (k_words 9) = 9
     \<and> label (reviewStrength (k_words 9)) = lit ''Weak''
     \<and> width (reviewStrength (k_words 9)) = lit ''25%''
   \<and> spec_token_count (k_words 10) = 10
     \<and> label (reviewStrength (k_words 10)) = lit ''Fair''
     \<and> width (reviewStrength (k_words 10)) = lit ''50%''
   \<and> spec_token_count (k_words 29) = 29
     \<and> label (reviewStrength (k_words 29)) = lit ''Fair''
   \<and> spec_token_count (k_words 30) = 30
     \<and> label (reviewStrength (k_words 30)) = lit ''Good''
     \<and> width (reviewStrength (k_words 30)) = lit ''75%''
   \<and> spec_token_count (k_words 59) = 59
     \<and> label (reviewStrength (k_words 59)) = lit ''Good''
   \<and> spec_token_count (k_words 60) = 60
     \<and> label (reviewStrength (k_words 60)) = lit ''Excellent''
     \<and> width (reviewStrength (k_words 60)) = lit ''100%''"
  using reviewStrength_thresholds [of "k_words 0"] reviewStrength_thresholds [of "k_words 9"]
    reviewStrength_thresholds [of "k_words 10"] reviewStrength_thresholds [of "k_words 29"]
    reviewStrength_thresholds [of "k_words 30"] reviewStrength_thresholds [of "k_words 59"]
    reviewStrength_thresholds [of "k_words 60"]
  by (simp add: spec_token_count_k_words)

section \<open>Submission\<close>

lemma analyzeReviews_blank:
  "trim (finalReviews shown textToUse) = [] \<Longrightarrow> analyzeReviews shown textToUse s = s"
  by (simp add: analyzeReviews_def)

lemma analyzeReviews_accepted:
  "trim (finalReviews shown textToUse) \<noteq> [] \<Longrightarrow>
   analyzeReviews shown textToUse s =
     s\<lparr>isAnalyzing := True, error := None,
       requests := requests s @ [contents (language shown) (finalReviews shown textToUse)]\<rparr>"
  by (simp add: analyzeReviews_def)

lemma finalReviews_Some: "t \<noteq> [] \<Longrightarrow> finalReviews shown (Some t) = t"
  by (simp add: finalReviews_def)

lemma finalReviews_empty: "finalReviews shown (Some []) = reviews shown"
  by (simp add: finalReviews_def)

lemma finalReviews_None: "finalReviews shown None = reviews shown"
  by (simp add: finalReviews_def)

lemma trim_not_Nil_not_Nil: "trim t \<noteq> [] \<Longrightarrow> t \<noteq> []"
  by (auto simp: trim_Nil)

lemma language_initial: "language initial = lit ''Auto-detect''"
  by (simp add: initial_def)

lemma first_submission:
  "analyzeReviews initial (Some (lit ''slow shipping'')) initial =
     initial\<lparr>isAnalyzing := True, error := None,
       requests := [contents (lit ''Auto-detect'') (lit ''slow shipping'')]\<rparr>"
proof -
  have "finalReviews initial (Some (lit ''slow shipping'')) = lit ''slow shipping''"
    by (rule finalReviews_Some) (simp add: lit_def)
  then show ?thesis
    using trim_slow_shipping by (simp add: analyzeReviews_def initial_def)
qed

section \<open>Completion\<close>

lemma body_None: "body None = lit ''{}''"
  by (simp add: body_def)

lemma body_sample: "body (Some sample_text) = sample_text"
  by (simp add: body_def sample_text_def lit_def)

lemma resume_parsed:
  "JSON_parse (body text) = Some data \<Longrightarrow>
   analyzeReviews_resume JSON_parse (Resolves text) s = s\<lparr>result := data, isAnalyzing := False\<rparr>"
  by (simp add: analyzeReviews_resume_def try_block_def)

lemma resume_unparseable:
  "JSON_parse (body text) = None \<Longrightarrow>
   analyzeReviews_resume JSON_parse (Resolves text) s =
     s\<lparr>console := console s @ [SyntaxError], error := Some failure_message, isAnalyzing := False\<rparr>"
  by (simp add: analyzeReviews_resume_def try_block_def)

lemma resume_rejected:
  "analyzeReviews_resume JSON_parse Rejects s =
     s\<lparr>console := console s @ [GenerationFailure], error := Some failure_message,
       isAnalyzing := False\<rparr>"
  by (simp add: analyzeReviews_resume_def try_block_def)

lemma spec_rejects_empty_object: "\<not> spec_accepts (JObject [])"
  by (simp add: spec_accepts_def required_def)

lemma spec_accepts_sample: "spec_accepts sample_data"
  by (simp add: spec_accepts_def sample_data_def sample_point_def required_def lit_def)

text \<open>
  C1, as the claim states it, fails: the response without a text is parsed as
  \<^verbatim>\<open>'{}'\<close>, the empty object has none of the seven fields, and it becomes
  the result with no error.
\<close>

theorem resume_validates_counterexample:
  "\<not> spec_accepts (JObject [])
   \<and> analyzeReviews_resume (map_of [(lit ''{}'', JObject [])]) (Resolves None)
       (analyzeReviews initial (Some (lit ''slow shipping'')) initial)
     = initial\<lparr>isAnalyzing := False, result := JObject [], error := None,
         requests := [contents (lit ''Auto-detect'') (lit ''slow shipping'')]\<rparr>"
  by (simp add: spec_rejects_empty_object first_submission resume_parsed body_None)

text \<open>
  C1, amended. A response is refused exactly when \<^verbatim>\<open>JSON.parse\<close> throws on
  its text (an absent or empty text being read as \<^verbatim>\<open>'{}'\<close>): then the
  failure message is set and the result is left as it was. Whatever value
  \<^verbatim>\<open>JSON.parse\<close> returns becomes the result as it is, with no check of the
  seven fields or of the number of projection points.
\<close>

theorem resume_accepts_what_parses:
  "(\<forall>data. JSON_parse (body text) = Some data \<longrightarrow>
      analyzeReviews_resume JSON_parse (Resolves text) s
        = s\<lparr>result := data, isAnalyzing := False\<rparr>)
   \<and> (JSON_parse (body text) = None \<longrightarrow>
      analyzeReviews_resume JSON_parse (Resolves text) s
        = s\<lparr>console := console s @ [SyntaxError], error := Some failure_message,
            isAnalyzing := False\<rparr>)"
  by (simp add: resume_parsed resume_unparseable)

theorem resume_accepts_what_parses_witness:
  "map_of [(sample_text, sample_data), (lit ''{}'', JObject [])] (body None) = Some (JObject [])
   \<and> result (analyzeReviews_resume (map_of [(sample_text, sample_data), (lit ''{}'', JObject [])])
        (Resolves None) initial) = JObject []
   \<and> map_of [(sample_text, sample_data), (lit ''{}'', JObject [])] (body (Some sample_text))
        = Some sample_data
   \<and> result (analyzeReviews_resume (map_of [(sample_text, sample_data), (lit ''{}'', JObject [])])
        (Resolves (Some sample_text)) initial) = sample_data
   \<and> map_of [(sample_text, sample_data), (lit ''{}'', JObject [])] (body (Some (lit ''<html>'')))
        = None
   \<and> error (analyzeReviews_resume (map_of [(sample_text, sample_data), (lit ''{}'', JObject [])])
        (Resolves (Some (lit ''<html>''))) initial) = Some failure_message
   \<and> result (analyzeReviews_resume (map_of [(sample_text, sample_data), (lit ''{}'', JObject [])])
        (Resolves (Some (lit ''<html>''))) initial) = JNull"
proof -
  let ?parse = "map_of [(sample_text, sample_data), (lit ''{}'', JObject [])]"
  have a: "?parse (body None) = Some (JObject [])"
    by (simp add: body_None sample_text_def lit_def)
  have b: "?parse (body (Some sample_text)) = Some sample_data"
    by (simp add: body_sample)
  have c: "?parse (body (Some (lit ''<html>''))) = None"
    by (simp add: body_def sample_text_def lit_def)
  show ?thesis
    using a b c
      resume_accepts_what_parses [of ?parse None initial]
      resume_accepts_what_parses [of ?parse "Some sample_text" initial]
      resume_accepts_what_parses [of ?parse "Some (lit ''<html>'')" initial]
    by (simp add: initial_def)
qed

section \<open>Submissions while a call is in flight\<close>

lemma clickGenerate_while_analyzing: "isAnalyzing shown \<Longrightarrow> clickGenerate shown s = s"
  by (simp add: clickGenerate_def)

lemma handlePaste_accepted:
  assumes "trim pasted \<noteq> []"
  shows "handlePaste shown pasted s =
     s\<lparr>reviews := pasted, isAnalyzing := True, error := None,
       requests := requests s @ [contents (language shown) pasted]\<rparr>"
proof -
  have "finalReviews shown (Some pasted) = pasted"
    using assms by (simp add: finalReviews_Some trim_not_Nil_not_Nil)
  then show ?thesis
    using assms by (simp add: handlePaste_def analyzeReviews_def)
qed

lemma clickExample_accepted:
  "clickExample shown s =
     s\<lparr>reviews := example, isAnalyzing := True, error := None,
       requests := requests s @ [contents (language shown) example]\<rparr>"
proof -
  have "finalReviews shown (Some example) = example"
    using trim_example by (simp add: finalReviews_Some trim_not_Nil_not_Nil)
  then show ?thesis
    using trim_example by (simp add: clickExample_def analyzeReviews_def)
qed

text \<open>
  C2 fails on the code. With the first call still in flight, the button
  "Generate Sales Strategy" is disabled and does nothing, but a paste and the
  example button each make a second call of \<^verbatim>\<open>generateContent\<close> and
  replace the textarea's text: \<^verbatim>\<open>analyzeReviews\<close> itself never reads
  \<^verbatim>\<open>isAnalyzing\<close>.
\<close>

theorem second_submission_while_analyzing:
  "isAnalyzing (handlePaste initial (lit ''slow shipping'') initial)
   \<and> requests (handlePaste initial (lit ''slow shipping'') initial)
       = [contents (lit ''Auto-detect'') (lit ''slow shipping'')]
   \<and> clickGenerate (handlePaste initial (lit ''slow shipping'') initial)
        (handlePaste initial (lit ''slow shipping'') initial)
       = handlePaste initial (lit ''slow shipping'') initial
   \<and> requests (handlePaste (handlePaste initial (lit ''slow shipping'') initial)
        (lit ''rude support'') (handlePaste initial (lit ''slow shipping'') initial))
       = [contents (lit ''Auto-detect'') (lit ''slow shipping''),
          contents (lit ''Auto-detect'') (lit ''rude support'')]
   \<and> reviews (handlePaste (handlePaste initial (lit ''slow shipping'') initial)
        (lit ''rude support'') (handlePaste initial (lit ''slow shipping'') initial))
       = lit ''rude support''
   \<and> requests (clickExample (handlePaste initial (lit ''slow shipping'') initial)
        (handlePaste initial (lit ''slow shipping'') initial))
       = [contents (lit ''Auto-detect'') (lit ''slow shipping''),
          contents (lit ''Auto-detect'') example]"
  by (simp add: handlePaste_accepted trim_slow_shipping trim_rude_support clickExample_accepted
      clickGenerate_while_analyzing language_initial)
    (simp add: initial_def)

section \<open>What a submission and a failure keep\<close>

text \<open>
  C3, as the claim states it, fails. After a successful analysis of the sample
  response, a new submission enters the analyzing state with the old result
  still in place, and when its call is rejected the old result stands beside
  the failure message.
\<close>

theorem result_discarded_counterexample:
  "(let parse = map_of [(sample_text, sample_data)];
        s1 = analyzeReviews initial (Some (lit ''slow shipping'')) initial;
        s2 = analyzeReviews_resume parse (Resolves (Some sample_text)) s1;
        s3 = analyzeReviews s2 (Some (lit ''rude support'')) s2;
        s4 = analyzeReviews_resume parse Rejects s3
    in spec_accepts sample_data
       \<and> result s2 = sample_data \<and> error s2 = None
       \<and> isAnalyzing s3 \<and> result s3 = sample_data
       \<and> \<not> isAnalyzing s4 \<and> result s4 = sample_data \<and> error s4 = Some failure_message)"
proof -
  have t: "trim (finalReviews shown (Some (lit ''rude support''))) \<noteq> []" for shown
    using trim_rude_support by (simp add: finalReviews_Some trim_not_Nil_not_Nil)
  show ?thesis
    by (simp add: Let_def spec_accepts_sample first_submission resume_parsed body_sample
        resume_rejected analyzeReviews_accepted [OF t])
qed

text \<open>
  C3, amended. An accepted submission discards the previous error on entering
  the analyzing state and keeps the previous result; a failure sets the
  failure message and keeps the previous result, if any, beside it; only a
  success replaces the result, and it leaves the error as it was.
\<close>

theorem submission_clears_error_keeps_result:
  "(trim (finalReviews shown textToUse) \<noteq> [] \<longrightarrow>
      isAnalyzing (analyzeReviews shown textToUse s)
      \<and> error (analyzeReviews shown textToUse s) = None
      \<and> result (analyzeReviews shown textToUse s) = result s)
   \<and> (\<forall>e. try_block JSON_parse r = Inl e \<longrightarrow>
      error (analyzeReviews_resume JSON_parse r s) = Some failure_message
      \<and> result (analyzeReviews_resume JSON_parse r s) = result s)
   \<and> (\<forall>data. try_block JSON_parse r = Inr data \<longrightarrow>
      result (analyzeReviews_resume JSON_parse r s) = data
      \<and> error (analyzeReviews_resume JSON_parse r s) = error s)"
  by (simp add: analyzeReviews_def analyzeReviews_resume_def)

theorem submission_clears_error_keeps_result_witness:
  "trim (finalReviews initial (Some (lit ''slow shipping''))) \<noteq> []
   \<and> error (analyzeReviews initial (Some (lit ''slow shipping''))
        (initial\<lparr>result := sample_data, error := Some failure_message\<rparr>)) = None
   \<and> result (analyzeReviews initial (Some (lit ''slow shipping''))
        (initial\<lparr>result := sample_data, error := Some failure_message\<rparr>)) = sample_data
   \<and> try_block (map_of [(sample_text, sample_data)]) Rejects = Inl GenerationFailure
   \<and> result (analyzeReviews_resume (map_of [(sample_text, sample_data)]) Rejects
        (initial\<lparr>result := sample_data\<rparr>)) = sample_data
   \<and> error (analyzeReviews_resume (map_of [(sample_text, sample_data)]) Rejects
        (initial\<lparr>result := sample_data\<rparr>)) = Some failure_message
   \<and> try_block (map_of [(sample_text, sample_data)]) (Resolves (Some sample_text)) = Inr sample_data
   \<and> result (analyzeReviews_resume (map_of [(sample_text, sample_data)])
        (Resolves (Some sample_text)) initial) = sample_data"
proof -
  let ?parse = "map_of [(sample_text, sample_data)]"
  have t: "trim (finalReviews initial (Some (lit ''slow shipping''))) \<noteq> []"
    using trim_slow_shipping trim_not_Nil_not_Nil [OF trim_slow_shipping]
    by (simp add: finalReviews_Some)
  have a: "try_block ?parse Rejects = Inl GenerationFailure"
    by (simp add: try_block_def)
  have b: "try_block ?parse (Resolves (Some sample_text)) = Inr sample_data"
    by (simp add: try_block_def body_sample)
  show ?thesis
    using t a b
      submission_clears_error_keeps_result [of initial "Some (lit ''slow shipping'')"
        "initial\<lparr>result := sample_data, error := Some failure_message\<rparr>" ?parse Rejects]
      submission_clears_error_keeps_result [of initial "Some (lit ''slow shipping'')"
        "initial\<lparr>result := sample_data\<rparr>" ?parse Rejects]
      submission_clears_error_keeps_result [of initial "Some (lit ''slow shipping'')"
        initial ?parse "Resolves (Some sample_text)"]
    by simp
qed

section \<open>Blank submissions\<close>

text \<open>
  C4. For every text that is empty or consists of whitespace only, submitting
  it changes nothing: no call is made, and the analyzing flag, the result and
  the error are as before. A text is submitted by pasting it, by the button
  with the text in the textarea, or by \<^verbatim>\<open>analyzeReviews\<close> with the text as
  the one it analyzes (the explicit text if it is a non-empty string, the
  textarea's text otherwise).
\<close>

theorem blank_submission_ignored:
  assumes "\<forall>c\<in>set t. isWhiteSpace c"
  shows "(finalReviews shown textToUse = t \<longrightarrow> analyzeReviews shown textToUse s = s)
     \<and> (t \<noteq> [] \<longrightarrow> analyzeReviews shown (Some t) s = s)
     \<and> (reviews shown = t \<longrightarrow> analyzeReviews shown None s = s \<and> clickGenerate shown s = s)
     \<and> handlePaste shown t s = s"
proof -
  have blank: "trim t = []"
    using assms by (simp add: trim_eq_Nil)
  have "analyzeReviews shown textToUse s = s" if "finalReviews shown textToUse = t"
    using that blank by (simp add: analyzeReviews_blank)
  moreover have "analyzeReviews shown (Some t) s = s" if "t \<noteq> []"
    using that blank by (simp add: analyzeReviews_blank finalReviews_Some)
  moreover have "analyzeReviews shown None s = s \<and> clickGenerate shown s = s"
    if "reviews shown = t"
    using that blank by (simp add: analyzeReviews_blank finalReviews_None clickGenerate_def)
  moreover have "handlePaste shown t s = s"
    using blank by (simp add: handlePaste_def)
  ultimately show ?thesis
    by blast
qed

theorem blank_submission_ignored_witness:
  "(\<forall>c\<in>set (lit ''   ''). isWhiteSpace c) = True
   \<and> lit ''   '' \<noteq> []
   \<and> analyzeReviews (onChange (lit ''slow shipping'') initial) (Some (lit ''   ''))
        (onChange (lit ''slow shipping'') initial) = onChange (lit ''slow shipping'') initial
   \<and> reviews (onChange (lit ''   '') initial) = lit ''   ''
   \<and> analyzeReviews (onChange (lit ''   '') initial) None (onChange (lit ''   '') initial)
        = onChange (lit ''   '') initial
   \<and> clickGenerate (onChange (lit ''   '') initial) (onChange (lit ''   '') initial)
        = onChange (lit ''   '') initial
   \<and> handlePaste initial (lit ''   '') initial = initial"
proof -
  have blank: "\<forall>c\<in>set (lit ''   ''). isWhiteSpace c"
    by (simp add: lit_def isWhiteSpace_def)
  have ne: "lit ''   '' \<noteq> []"
    by (simp add: lit_def)
  have r: "reviews (onChange (lit ''   '') initial) = lit ''   ''"
    by (simp add: onChange_def)
  show ?thesis
    using blank ne r
      blank_submission_ignored [OF blank, of "onChange (lit ''slow shipping'') initial"
        "Some (lit ''   '')" "onChange (lit ''slow shipping'') initial"]
      blank_submission_ignored [OF blank, of "onChange (lit ''   '') initial" None
        "onChange (lit ''   '') initial"]
      blank_submission_ignored [OF blank, of initial None initial]
    by simp
qed

section \<open>Numbers that need no rounding\<close>






section \<open>The estimate\<close>

lemma floor_numeral_divide: "\<lfloor>(numeral a :: rat) / numeral b\<rfloor> = numeral a div numeral b"
  by (metis floor_divide_of_int_eq of_int_numeral)

text \<open>
  The doubles of 4.1 and 44.3, of their difference and of 2.5 times that; the
  last is just below 100.5, where the exact product of 40.2 and 2.5 is 100.5.
\<close>

lemma fl_4_1: "fl (41 / 10) = Finite (2308094809027379 / 2 ^ 49)"
proof -
  have "exponent (41 / 10) = 2"
    by (simp add: exponent_def compute_bitlen floor_numeral_divide)
  then show ?thesis
    by (simp add: fl_def Let_def floor_numeral_divide)
qed

lemma fl_44_3: "fl (443 / 10) = Finite (3117335367070515 / 2 ^ 46)"
proof -
  have "exponent (443 / 10) = 5"
    by (simp add: exponent_def compute_bitlen floor_numeral_divide)
  then show ?thesis
    by (simp add: fl_def Let_def floor_numeral_divide)
qed

lemma fl_difference:
  "fl (3117335367070515 / 2 ^ 46 - 2308094809027379 / 2 ^ 49) = Finite (5657647031884185 / 2 ^ 47)"
proof -
  have "exponent (3117335367070515 / 2 ^ 46 - 2308094809027379 / 2 ^ 49) = 5"
    by (simp add: exponent_def compute_bitlen floor_numeral_divide)
  then show ?thesis
    by (simp add: fl_def Let_def floor_numeral_divide)
qed

lemma fl_product: "fl (5657647031884185 / 2 ^ 47 * 2.5) = Finite (7072058789855231 / 2 ^ 46)"
proof -
  have "exponent (5657647031884185 / 2 ^ 47 * 2.5) = 6"
    by (simp add: exponent_def compute_bitlen floor_numeral_divide)
  then show ?thesis
    by (simp add: fl_def Let_def floor_numeral_divide)
qed

lemma estimate_4_1_44_3:
  "annualIncrementEstimate (sample_result (fl (41 / 10)) (fl (443 / 10))) = Inr (Finite 100)"
proof -
  have "number_minus (fl (443 / 10)) (fl (41 / 10)) = Finite (5657647031884185 / 2 ^ 47)"
    by (simp only: fl_4_1 fl_44_3 number_minus.simps fl_difference)
  then have "number_times (number_minus (fl (443 / 10)) (fl (41 / 10))) (Finite 2.5)
      = Finite (7072058789855231 / 2 ^ 46)"
    by (simp only: number_times.simps fl_product)
  moreover have "Math_round (Finite (7072058789855231 / 2 ^ 46)) = Finite 100"
    by (simp add: floor_numeral_divide)
  moreover have "annualIncrementEstimate (sample_result c p)
      = Inr (Math_round (number_times (number_minus p c) (Finite 2.5)))" for c p
    by (simp add: annualIncrementEstimate_def sample_result_def sample_points_def element_def)
  ultimately show ?thesis
    by (simp only:)
qed



section \<open>Failure\<close>

text \<open>
  C7. When the call is rejected or \<^verbatim>\<open>JSON.parse\<close> throws on the response
  text, the error becomes the one fixed failure message, the same in both
  cases, the thrown error is logged (and tells the two cases apart), the
  analyzing flag is reset, and after that a submission of a text that does not
  trim to empty is accepted, whether it is pasted or typed and sent with the
  button.
\<close>

theorem failure_is_reported_and_recoverable:
  assumes "r = Rejects \<or> (\<exists>text. r = Resolves text \<and> JSON_parse (body text) = None)"
  shows "error (analyzeReviews_resume JSON_parse r s) = Some failure_message
     \<and> failure_message = lit ''Failed to analyze reviews. Please try again.''
     \<and> \<not> isAnalyzing (analyzeReviews_resume JSON_parse r s)
     \<and> console (analyzeReviews_resume JSON_parse r s)
         = console s @ [if r = Rejects then GenerationFailure else SyntaxError]
     \<and> (trim t \<noteq> [] \<longrightarrow>
          handlePaste (analyzeReviews_resume JSON_parse r s) t (analyzeReviews_resume JSON_parse r s)
            = (analyzeReviews_resume JSON_parse r s)
                \<lparr>reviews := t, isAnalyzing := True, error := None,
                 requests := requests s @ [contents (language s) t]\<rparr>
          \<and> clickGenerate (onChange t (analyzeReviews_resume JSON_parse r s))
               (onChange t (analyzeReviews_resume JSON_parse r s))
            = (analyzeReviews_resume JSON_parse r s)
                \<lparr>reviews := t, isAnalyzing := True, error := None,
                 requests := requests s @ [contents (language s) t]\<rparr>)"
proof -
  let ?s = "analyzeReviews_resume JSON_parse r s"
  have s: "?s = s\<lparr>console := console s @ [if r = Rejects then GenerationFailure else SyntaxError],
                  error := Some failure_message, isAnalyzing := False\<rparr>"
    using assms by (auto simp: resume_rejected resume_unparseable)
  have "handlePaste ?s t ?s
      = ?s\<lparr>reviews := t, isAnalyzing := True, error := None,
           requests := requests s @ [contents (language s) t]\<rparr>" if "trim t \<noteq> []"
    using that by (simp add: handlePaste_accepted) (simp add: s)
  moreover have "clickGenerate (onChange t ?s) (onChange t ?s)
      = ?s\<lparr>reviews := t, isAnalyzing := True, error := None,
           requests := requests s @ [contents (language s) t]\<rparr>" if "trim t \<noteq> []"
    using that
    by (simp add: s clickGenerate_def onChange_def analyzeReviews_def finalReviews_None)
  ultimately show ?thesis
    by (simp add: s failure_message_def)
qed

theorem failure_is_reported_and_recoverable_witness:
  "error (analyzeReviews_resume (map_of [(sample_text, sample_data)]) Rejects
       (analyzeReviews initial (Some (lit ''slow shipping'')) initial)) = Some failure_message
   \<and> console (analyzeReviews_resume (map_of [(sample_text, sample_data)]) Rejects
       (analyzeReviews initial (Some (lit ''slow shipping'')) initial)) = [GenerationFailure]
   \<and> map_of [(sample_text, sample_data)] (body (Some (lit ''<html>''))) = None
   \<and> error (analyzeReviews_resume (map_of [(sample_text, sample_data)])
       (Resolves (Some (lit ''<html>'')))
       (analyzeReviews initial (Some (lit ''slow shipping'')) initial)) = Some failure_message
   \<and> console (analyzeReviews_resume (map_of [(sample_text, sample_data)])
       (Resolves (Some (lit ''<html>'')))
       (analyzeReviews initial (Some (lit ''slow shipping'')) initial)) = [SyntaxError]
   \<and> trim (lit ''rude support'') \<noteq> []
   \<and> requests (handlePaste
        (analyzeReviews_resume (map_of [(sample_text, sample_data)]) Rejects
           (analyzeReviews initial (Some (lit ''slow shipping'')) initial))
        (lit ''rude support'')
        (analyzeReviews_resume (map_of [(sample_text, sample_data)]) Rejects
           (analyzeReviews initial (Some (lit ''slow shipping'')) initial)))
       = [contents (lit ''Auto-detect'') (lit ''slow shipping''),
          contents (lit ''Auto-detect'') (lit ''rude support'')]"
proof -
  let ?parse = "map_of [(sample_text, sample_data)]"
  let ?s1 = "analyzeReviews initial (Some (lit ''slow shipping'')) initial"
  let ?t = "lit ''rude support''"
  have a: "?parse (body (Some (lit ''<html>''))) = None"
    by (simp add: body_def sample_text_def lit_def)
  then have b: "Resolves (Some (lit ''<html>'')) = Rejects
      \<or> (\<exists>text. Resolves (Some (lit ''<html>'')) = Resolves text \<and> ?parse (body text) = None)"
    by blast
  have c: "Rejects = Rejects \<or> (\<exists>text. Rejects = Resolves text \<and> ?parse (body text) = None)"
    by blast
  note rejected = failure_is_reported_and_recoverable [OF c, of ?s1 ?t]
  note unparseable = failure_is_reported_and_recoverable [OF b, of ?s1 ?t]
  have s1: "console ?s1 = []" "language ?s1 = lit ''Auto-detect''"
    "requests ?s1 = [contents (lit ''Auto-detect'') (lit ''slow shipping'')]"
    unfolding first_submission by (simp_all add: initial_def)
  have "error (analyzeReviews_resume ?parse Rejects ?s1) = Some failure_message"
    using rejected by blast
  moreover have "console (analyzeReviews_resume ?parse Rejects ?s1)
      = console ?s1 @ [if Rejects = Rejects then GenerationFailure else SyntaxError]"
    using rejected by blast
  then have "console (analyzeReviews_resume ?parse Rejects ?s1) = [GenerationFailure]"
    by (simp only: s1 append_Nil simp_thms if_True)
  moreover have "error (analyzeReviews_resume ?parse (Resolves (Some (lit ''<html>''))) ?s1)
      = Some failure_message"
    using unparseable by blast
  moreover have "console (analyzeReviews_resume ?parse (Resolves (Some (lit ''<html>''))) ?s1)
      = console ?s1 @ [if Resolves (Some (lit ''<html>'')) = Rejects then GenerationFailure
                       else SyntaxError]"
    using unparseable by blast
  then have "console (analyzeReviews_resume ?parse (Resolves (Some (lit ''<html>''))) ?s1)
      = [SyntaxError]"
    by (simp only: s1 append_Nil reply.distinct if_False)
  moreover have "handlePaste (analyzeReviews_resume ?parse Rejects ?s1) ?t
        (analyzeReviews_resume ?parse Rejects ?s1)
      = (analyzeReviews_resume ?parse Rejects ?s1)
          \<lparr>reviews := ?t, isAnalyzing := True, error := None,
           requests := requests ?s1 @ [contents (language ?s1) ?t]\<rparr>"
    using rejected trim_rude_support by blast
  then have "requests (handlePaste (analyzeReviews_resume ?parse Rejects ?s1) ?t
        (analyzeReviews_resume ?parse Rejects ?s1))
      = [contents (lit ''Auto-detect'') (lit ''slow shipping''),
         contents (lit ''Auto-detect'') (lit ''rude support'')]"
    by (simp add: s1 del: map_of.simps)
  ultimately show ?thesis
    using a trim_rude_support by blast
qed

section \<open>The prompt\<close>

lemma sublist_interpolated: "sublist x (a @ l @ b @ x @ c)"
  unfolding sublist_def by (intro exI [of _ "a @ l @ b"] exI [of _ c]) simp

lemma sublist_around:
  "a = a' @ p \<Longrightarrow> b = q @ b' \<Longrightarrow> sublist (p @ l @ q) (a @ l @ b @ c)"
  unfolding sublist_def by (intro exI [of _ a'] exI [of _ "b' @ c"]) simp

lemma suffix_last_piece: "suffix d (a @ l @ b @ x @ c @ d)"
  unfolding suffix_def by (intro exI [of _ "a @ l @ b @ x @ c"]) simp

text \<open>
  C8. The prompt is a function of the review text and the language alone; it
  contains the review text verbatim, names the language after
  \<^verbatim>\<open>Input Language:\<close> (the language is \<^verbatim>\<open>Auto-detect\<close> until one is
  selected), and ends with the instruction to translate reviews in another
  language internally and to give the strategy in English. This prompt, for
  the text analyzed and the language shown, is what an accepted submission
  sends.
\<close>

theorem contents_states_language_and_reviews:
  "sublist rawText (contents lang rawText)
   \<and> sublist (lit ''(Input Language: '' @ lang @ lit '')'') (contents lang rawText)
   \<and> suffix
       (lit ''Note: If the reviews are in a language other than English, please translate the core insights internally to provide the strategy in English.'')
       (contents lang rawText)
   \<and> language initial = lit ''Auto-detect''
   \<and> (trim (finalReviews shown textToUse) \<noteq> [] \<longrightarrow>
        requests (analyzeReviews shown textToUse s)
          = requests s @ [contents (language shown) (finalReviews shown textToUse)])"
proof -
  have "sublist rawText (contents lang rawText)"
    unfolding contents_def by (rule sublist_interpolated)
  moreover have "sublist (lit ''(Input Language: '' @ lang @ lit '')'') (contents lang rawText)"
    unfolding contents_def
    by (rule sublist_around [where a' = "lit ''Analyze the following customer reviews ''"])
      (simp_all add: lit_def)
  moreover have "suffix
       (lit ''Note: If the reviews are in a language other than English, please translate the core insights internally to provide the strategy in English.'')
       (contents lang rawText)"
    unfolding contents_def by (rule suffix_last_piece)
  ultimately show ?thesis
    by (simp add: language_initial analyzeReviews_accepted)
qed

theorem contents_states_language_and_reviews_witness:
  "sublist (lit ''(Input Language: Auto-detect)'')
      (contents (language initial) (lit ''slow shipping''))
   \<and> sublist (lit ''slow shipping'') (contents (language initial) (lit ''slow shipping''))
   \<and> trim (finalReviews initial (Some (lit ''slow shipping''))) \<noteq> []
   \<and> requests (analyzeReviews initial (Some (lit ''slow shipping'')) initial)
       = [contents (lit ''Auto-detect'') (lit ''slow shipping'')]"
proof -
  have t: "trim (finalReviews initial (Some (lit ''slow shipping''))) \<noteq> []"
    using trim_slow_shipping by (simp add: finalReviews_Some trim_not_Nil_not_Nil)
  have f: "finalReviews initial (Some (lit ''slow shipping'')) = lit ''slow shipping''"
    using trim_slow_shipping by (simp add: finalReviews_Some trim_not_Nil_not_Nil)
  have l: "lit ''(Input Language: '' @ lit ''Auto-detect'' @ lit '')''
      = lit ''(Input Language: Auto-detect)''"
    by (simp add: lit_def)
  note c = contents_states_language_and_reviews
    [of "lit ''slow shipping''" "lit ''Auto-detect''" initial "Some (lit ''slow shipping'')" initial]
  have "sublist (lit ''(Input Language: Auto-detect)'')
      (contents (language initial) (lit ''slow shipping''))"
    using c l by (simp add: language_initial)
  moreover have "sublist (lit ''slow shipping'') (contents (language initial) (lit ''slow shipping''))"
    using c by (simp add: language_initial)
  moreover have "requests (analyzeReviews initial (Some (lit ''slow shipping'')) initial)
       = [contents (lit ''Auto-detect'') (lit ''slow shipping'')]"
    using c t f by (simp add: initial_def)
  ultimately show ?thesis
    using t by blast
qed

section \<open>The explicit text and the paste\<close>

text \<open>
  C9. An explicit text that is the empty string is treated like no argument:
  the textarea's text is analyzed, so that with a review in the textarea the
  submission goes ahead with that review. The explicit text is what is
  analyzed only when it is a non-empty string.
\<close>

theorem empty_argument_falls_back:
  "finalReviews shown (Some []) = reviews shown
   \<and> finalReviews shown None = reviews shown
   \<and> analyzeReviews shown (Some []) s = analyzeReviews shown None s
   \<and> (trim (reviews shown) \<noteq> [] \<longrightarrow>
        analyzeReviews shown (Some []) s
          = s\<lparr>isAnalyzing := True, error := None,
              requests := requests s @ [contents (language shown) (reviews shown)]\<rparr>)
   \<and> (t \<noteq> [] \<longrightarrow> finalReviews shown (Some t) = t)
   \<and> (trim t \<noteq> [] \<longrightarrow>
        analyzeReviews shown (Some t) s
          = s\<lparr>isAnalyzing := True, error := None,
              requests := requests s @ [contents (language shown) t]\<rparr>)"
proof -
  have "analyzeReviews shown (Some t) s
      = s\<lparr>isAnalyzing := True, error := None,
          requests := requests s @ [contents (language shown) t]\<rparr>" if "trim t \<noteq> []"
    using that by (simp add: analyzeReviews_def finalReviews_Some trim_not_Nil_not_Nil)
  then show ?thesis
    by (simp add: analyzeReviews_def finalReviews_def)
qed

theorem empty_argument_falls_back_witness:
  "trim (reviews (onChange (lit ''slow shipping'') initial)) \<noteq> []
   \<and> requests (analyzeReviews (onChange (lit ''slow shipping'') initial) (Some [])
        (onChange (lit ''slow shipping'') initial))
       = [contents (lit ''Auto-detect'') (lit ''slow shipping'')]
   \<and> lit ''rude support'' \<noteq> []
   \<and> trim (lit ''rude support'') \<noteq> []
   \<and> requests (analyzeReviews (onChange (lit ''slow shipping'') initial)
        (Some (lit ''rude support'')) (onChange (lit ''slow shipping'') initial))
       = [contents (lit ''Auto-detect'') (lit ''rude support'')]"
proof -
  let ?s = "onChange (lit ''slow shipping'') initial"
  have r: "trim (reviews ?s) \<noteq> []"
    using trim_slow_shipping by (simp add: onChange_def)
  have ne: "lit ''rude support'' \<noteq> []"
    using trim_rude_support by (rule trim_not_Nil_not_Nil)
  note e = empty_argument_falls_back [of ?s ?s "lit ''rude support''"]
  have "analyzeReviews ?s (Some []) ?s
      = ?s\<lparr>isAnalyzing := True, error := None,
           requests := requests ?s @ [contents (language ?s) (reviews ?s)]\<rparr>"
    using e r by blast
  then have "requests (analyzeReviews ?s (Some []) ?s)
      = [contents (lit ''Auto-detect'') (lit ''slow shipping'')]"
    by (simp add: onChange_def initial_def)
  moreover have "analyzeReviews ?s (Some (lit ''rude support'')) ?s
      = ?s\<lparr>isAnalyzing := True, error := None,
           requests := requests ?s @ [contents (language ?s) (lit ''rude support'')]\<rparr>"
    using e trim_rude_support by blast
  then have "requests (analyzeReviews ?s (Some (lit ''rude support'')) ?s)
      = [contents (lit ''Auto-detect'') (lit ''rude support'')]"
    by (simp add: onChange_def initial_def)
  ultimately show ?thesis
    using r ne trim_rude_support by blast
qed

text \<open>
  C10. A paste whose text does not trim to empty puts the pasted text into the
  textarea and starts an analysis of exactly the pasted text, whatever the
  textarea held before; a paste whose text trims to empty changes nothing and
  starts no analysis.
\<close>

theorem handlePaste_analyzes_pasted_text:
  "(trim pasted \<noteq> [] \<longrightarrow>
      handlePaste shown pasted s
        = s\<lparr>reviews := pasted, isAnalyzing := True, error := None,
            requests := requests s @ [contents (language shown) pasted]\<rparr>)
   \<and> (trim pasted = [] \<longrightarrow> handlePaste shown pasted s = s)"
  by (simp add: handlePaste_accepted) (simp add: handlePaste_def)

theorem handlePaste_analyzes_pasted_text_witness:
  "trim (lit ''rude support'') \<noteq> []
   \<and> handlePaste (onChange (lit ''slow shipping'') initial) (lit ''rude support'')
        (onChange (lit ''slow shipping'') initial)
       = initial\<lparr>reviews := lit ''rude support'', isAnalyzing := True,
           requests := [contents (lit ''Auto-detect'') (lit ''rude support'')]\<rparr>
   \<and> trim (lit ''   '') = []
   \<and> handlePaste (onChange (lit ''slow shipping'') initial) (lit ''   '')
        (onChange (lit ''slow shipping'') initial) = onChange (lit ''slow shipping'') initial"
proof -
  let ?s = "onChange (lit ''slow shipping'') initial"
  note p = handlePaste_analyzes_pasted_text [of "lit ''rude support''" ?s ?s]
  note q = handlePaste_analyzes_pasted_text [of "lit ''   ''" ?s ?s]
  have "handlePaste ?s (lit ''rude support'') ?s
      = ?s\<lparr>reviews := lit ''rude support'', isAnalyzing := True, error := None,
           requests := requests ?s @ [contents (language ?s) (lit ''rude support'')]\<rparr>"
    using p trim_rude_support by blast
  then have "handlePaste ?s (lit ''rude support'') ?s
      = initial\<lparr>reviews := lit ''rude support'', isAnalyzing := True,
          requests := [contents (lit ''Auto-detect'') (lit ''rude support'')]\<rparr>"
    by (simp add: onChange_def initial_def)
  moreover have "handlePaste ?s (lit ''   '') ?s = ?s"
    using q trim_spaces by blast
  ultimately show ?thesis
    using trim_rude_support trim_spaces by blast
qed

end
